theory Spec2Isabelle
  imports Complex_Main
begin

section \<open>Conventions\<close>

text \<open>
  The simulator is Python. Its numbers are Python floats (and ints read from the
  configuration); they are modelled as exact reals, so every statement below is about the
  arithmetic the formulas denote, not about IEEE rounding. Python raises on a division by
  zero and on the square root of a negative number; both are branches of the model. A
  method that mutates \<open>self\<close> takes the object and returns it updated.
\<close>

datatype error = ZeroDivisionError | ValueError

text \<open>\<open>config_data.get(key, default)\<close> on a configuration section.\<close>

definition cfg_get :: "(string \<rightharpoonup> 'a) \<Rightarrow> string \<Rightarrow> 'a \<Rightarrow> 'a" where
  "cfg_get config_data key dflt = (case config_data key of None \<Rightarrow> dflt | Some v \<Rightarrow> v)"

section \<open>components.py: Battery\<close>

record battery =
  capacity_kwh :: real
  efficiency_rt :: real
  min_soc_limit_pct :: real
  current_energy_kwh :: real
  efficiency_ow :: real

text \<open>
  \<open>Battery.__init__\<close>. \<open>math.sqrt\<close> raises \<open>ValueError\<close> on a negative argument
  (HOL's \<open>sqrt\<close> is total and odd, so the test is written out).
\<close>

definition Battery_init :: "(string \<rightharpoonup> real) \<Rightarrow> error + battery" where
  "Battery_init config_data =
     (let capacity = cfg_get config_data ''capacity'' 13.5;
          eff_rt = cfg_get config_data ''efficiency'' 0.90;
          min_soc = cfg_get config_data ''discharge_depth'' 0.05;
          initial_state_pct = cfg_get config_data ''initial_state'' 0.0
      in if eff_rt < 0 then Inl ValueError
         else Inr \<lparr>capacity_kwh = capacity,
                   efficiency_rt = eff_rt,
                   min_soc_limit_pct = min_soc,
                   current_energy_kwh = capacity * initial_state_pct,
                   efficiency_ow = sqrt eff_rt\<rparr>)"

text \<open>
  \<open>Battery.charge\<close>: the result is the energy drawn from the source and the battery
  after the call. The only division is in the clipping branch, before the assignment to
  \<open>current_energy_kwh\<close>, so a raise leaves the battery as it was.
\<close>

definition charge :: "battery \<Rightarrow> real \<Rightarrow> error + (real \<times> battery)" where
  "charge b energy_input_kwh =
     (let energy_to_store = energy_input_kwh * efficiency_ow b;
          space_available = capacity_kwh b - current_energy_kwh b
      in if energy_to_store > space_available then
           (if efficiency_ow b = 0 then Inl ZeroDivisionError
            else Inr (space_available / efficiency_ow b,
                      b\<lparr>current_energy_kwh := current_energy_kwh b + space_available\<rparr>))
         else Inr (energy_input_kwh,
                   b\<lparr>current_energy_kwh := current_energy_kwh b + energy_to_store\<rparr>))"

text \<open>
  \<open>Battery.discharge\<close>: the early return hands back \<open>0.0\<close> without touching the
  state; otherwise the request is divided by the one-way efficiency (a raise when that is
  zero, again before any assignment).
\<close>

definition discharge :: "battery \<Rightarrow> real \<Rightarrow> error + (real \<times> battery)" where
  "discharge b energy_needed_kwh =
     (let min_energy_kwh = capacity_kwh b * min_soc_limit_pct b;
          available_energy = current_energy_kwh b - min_energy_kwh
      in if available_energy \<le> 0 then Inr (0, b)
         else if efficiency_ow b = 0 then Inl ZeroDivisionError
         else let energy_to_drain = energy_needed_kwh / efficiency_ow b
              in if energy_to_drain > available_energy then
                   Inr (available_energy * efficiency_ow b,
                        b\<lparr>current_energy_kwh := current_energy_kwh b - available_energy\<rparr>)
                 else Inr (energy_needed_kwh,
                           b\<lparr>current_energy_kwh := current_energy_kwh b - energy_to_drain\<rparr>))"


definition constructed :: "battery \<Rightarrow> bool" where
  "constructed b \<longleftrightarrow> 0 \<le> efficiency_rt b \<and> efficiency_ow b = sqrt (efficiency_rt b)"






section \<open>components.py: SolarPanel\<close>

record solar_panel =
  peak_power_kw :: real

definition SolarPanel_init :: "(string \<rightharpoonup> real) \<Rightarrow> solar_panel" where
  "SolarPanel_init config_data = \<lparr>peak_power_kw = cfg_get config_data ''panel_peak_kw'' 5.0\<rparr>"


section \<open>components.py: Inverter\<close>

text \<open>
  The inverter draws from Python's global random source. Each call of \<open>check_status\<close>
  makes at most one \<open>random.random()\<close> draw and at most one \<open>random.randint\<close> draw;
  the model receives both as arguments: \<open>u\<close>, the value \<open>random.random()\<close> would
  return, and \<open>r\<close>, the raw entropy behind \<open>random.randint\<close>. The standard library's
  \<open>randint(a, b)\<close> returns an integer between \<open>a\<close> and \<open>b\<close>, both included, and raises
  \<open>ValueError\<close> on an empty range.
\<close>

definition randint :: "int \<Rightarrow> int \<Rightarrow> nat \<Rightarrow> error + int" where
  "randint a b r = (if a > b then Inl ValueError else Inr (a + int r mod (b - a + 1)))"

record inverter =
  max_output_kw :: real
  failure_probability :: real
  min_repair_time :: int
  max_repair_time :: int
  is_broken :: bool
  hours_until_repair :: int

text \<open>Step 2 of \<open>check_status\<close>: the roll for a new failure of a working inverter.\<close>

definition roll_failure :: "inverter \<Rightarrow> real \<Rightarrow> nat \<Rightarrow> error + (bool \<times> inverter)" where
  "roll_failure iv u r =
     (if u < failure_probability iv then
        (case randint (min_repair_time iv) (max_repair_time iv) r of
           Inl e \<Rightarrow> Inl e
         | Inr d \<Rightarrow> Inr (False, iv\<lparr>is_broken := True, hours_until_repair := d\<rparr>))
      else Inr (True, iv))"

text \<open>
  \<open>Inverter.check_status\<close>: a broken inverter counts down; when the counter reaches zero
  the flag is cleared and control falls through to the roll of step 2, in the same call.
\<close>

definition check_status :: "inverter \<Rightarrow> real \<Rightarrow> nat \<Rightarrow> error + (bool \<times> inverter)" where
  "check_status iv u r =
     (if is_broken iv then
        (let iv1 = iv\<lparr>hours_until_repair := hours_until_repair iv - 1\<rparr>
         in if hours_until_repair iv1 \<le> 0 then roll_failure (iv1\<lparr>is_broken := False\<rparr>) u r
            else Inr (False, iv1))
      else roll_failure iv u r)"

definition clip_power :: "inverter \<Rightarrow> real \<Rightarrow> real \<Rightarrow> nat \<Rightarrow> error + (real \<times> inverter)" where
  "clip_power iv dc_power_kw u r =
     (case check_status iv u r of
        Inl e \<Rightarrow> Inl e
      | Inr (ok, iv') \<Rightarrow>
          if \<not> ok then Inr (0, iv')
          else Inr (min dc_power_kw (max_output_kw iv'), iv'))"

text \<open>
  One \<open>clip_power\<close> call per simulated step, as the engine's loop makes them: each step
  brings its DC input and its two draws; the outputs are collected in order.
\<close>

fun clip_steps :: "inverter \<Rightarrow> (real \<times> real \<times> nat) list \<Rightarrow> error + (real list \<times> inverter)" where
  "clip_steps iv [] = Inr ([], iv)"
| "clip_steps iv ((dc, u, r) # steps) =
     (case clip_power iv dc u r of
        Inl e \<Rightarrow> Inl e
      | Inr (ac, iv') \<Rightarrow>
          (case clip_steps iv' steps of
             Inl e \<Rightarrow> Inl e
           | Inr (acs, iv'') \<Rightarrow> Inr (ac # acs, iv'')))"

section \<open>strategy.py: EnergyManager\<close>

record flow_log =
  solar_to_load :: real
  solar_to_battery :: real
  solar_to_grid :: real
  grid_import :: real
  battery_discharge :: real
  curtailed :: real

record energy_manager =
  strategy_name :: string

definition EnergyManager_init :: "(string \<rightharpoonup> string) \<Rightarrow> energy_manager" where
  "EnergyManager_init config_data =
     \<lparr>strategy_name = cfg_get config_data ''name'' ''LOAD_PRIORITY''\<rparr>"

text \<open>
  The three policies write into the log they are handed and mutate the battery through
  \<open>charge\<close> and \<open>discharge\<close> only; each returns the log and the battery as they are at
  the end of the call. A raise inside a battery call ends the policy.
\<close>

definition run_load_priority ::
  "real \<Rightarrow> real \<Rightarrow> battery \<Rightarrow> real \<Rightarrow> flow_log \<Rightarrow> error + (flow_log \<times> battery)" where
  "run_load_priority solar load battery grid_limit log_in =
     (case (if solar \<ge> load then
              Inr (log_in\<lparr>solar_to_load := load\<rparr>, solar - load, battery)
            else
              (let deficit = load - solar
               in case discharge battery deficit of
                    Inl e \<Rightarrow> Inl e
                  | Inr (discharged, battery') \<Rightarrow>
                      (let log' = log_in\<lparr>solar_to_load := solar, battery_discharge := discharged\<rparr>;
                           remaining_deficit = deficit - discharged
                       in Inr (if remaining_deficit > 0
                               then log'\<lparr>grid_import := remaining_deficit\<rparr> else log',
                               0, battery'))))
      of
        Inl e \<Rightarrow> Inl e
      | Inr (log1, excess1, battery1) \<Rightarrow>
          (case (if excess1 > 0 then
                   (case charge battery1 excess1 of
                      Inl e \<Rightarrow> Inl e
                    | Inr (charged, battery') \<Rightarrow>
                        Inr (log1\<lparr>solar_to_battery := charged\<rparr>, excess1 - charged, battery'))
                 else Inr (log1, excess1, battery1))
           of
             Inl e \<Rightarrow> Inl e
           | Inr (log2, excess2, battery2) \<Rightarrow>
               (let (log3, excess3) =
                      (if excess2 > 0 then
                         (let to_export = min excess2 grid_limit
                          in (log2\<lparr>solar_to_grid := to_export\<rparr>, excess2 - to_export))
                       else (log2, excess2));
                    log4 = (if excess3 > 0 then log3\<lparr>curtailed := excess3\<rparr> else log3)
                in Inr (log4, battery2))))"

definition run_charge_priority ::
  "real \<Rightarrow> real \<Rightarrow> battery \<Rightarrow> real \<Rightarrow> flow_log \<Rightarrow> error + (flow_log \<times> battery)" where
  "run_charge_priority solar load battery grid_limit log_in =
     (case (if solar > 0 then
              (case charge battery solar of
                 Inl e \<Rightarrow> Inl e
               | Inr (charged, battery') \<Rightarrow>
                   Inr (log_in\<lparr>solar_to_battery := charged\<rparr>, solar - charged, battery'))
            else Inr (log_in, solar, battery))
      of
        Inl e \<Rightarrow> Inl e
      | Inr (log1, remaining1, battery1) \<Rightarrow>
          (let (log2, remaining2) =
                 (if remaining1 \<ge> load then
                    (log1\<lparr>solar_to_load := load\<rparr>, remaining1 - load)
                  else
                    (let deficit = load - remaining1
                     in (log1\<lparr>solar_to_load := remaining1, grid_import := deficit\<rparr>, 0)));
               (log3, remaining3) =
                 (if remaining2 > 0 then
                    (let to_export = min remaining2 grid_limit
                     in (log2\<lparr>solar_to_grid := to_export\<rparr>, remaining2 - to_export))
                  else (log2, remaining2))
           in Inr (log3\<lparr>curtailed := remaining3\<rparr>, battery1)))"

definition run_produce_priority ::
  "real \<Rightarrow> real \<Rightarrow> battery \<Rightarrow> real \<Rightarrow> flow_log \<Rightarrow> error + (flow_log \<times> battery)" where
  "run_produce_priority solar load battery grid_limit log_in =
     (let to_export = min solar grid_limit;
          log0 = log_in\<lparr>solar_to_grid := to_export\<rparr>;
          remaining0 = solar - to_export
      in case (if remaining0 > 0 then
                 (case charge battery remaining0 of
                    Inl e \<Rightarrow> Inl e
                  | Inr (charged, battery') \<Rightarrow>
                      Inr (log0\<lparr>solar_to_battery := charged\<rparr>, remaining0 - charged, battery'))
               else Inr (log0, remaining0, battery))
         of
           Inl e \<Rightarrow> Inl e
         | Inr (log1, remaining1, battery1) \<Rightarrow>
             (case (if remaining1 \<ge> load then
                      Inr (log1\<lparr>solar_to_load := load\<rparr>, remaining1 - load, battery1)
                    else
                      (let deficit = load - remaining1
                       in case discharge battery1 deficit of
                            Inl e \<Rightarrow> Inl e
                          | Inr (discharged, battery') \<Rightarrow>
                              (let remaining_deficit = deficit - discharged
                               in Inr (log1\<lparr>solar_to_load := remaining1,
                                            battery_discharge := discharged,
                                            grid_import := remaining_deficit\<rparr>,
                                       0, battery'))))
              of
                Inl e \<Rightarrow> Inl e
              | Inr (log2, remaining2, battery2) \<Rightarrow>
                  Inr (log2\<lparr>curtailed := remaining2\<rparr>, battery2)))"

definition new_flow_log :: flow_log where
  "new_flow_log =
     \<lparr>solar_to_load = 0, solar_to_battery = 0, solar_to_grid = 0,
      grid_import = 0, battery_discharge = 0, curtailed = 0\<rparr>"

definition decide_energy_flow ::
  "energy_manager \<Rightarrow> real \<Rightarrow> real \<Rightarrow> battery \<Rightarrow> real \<Rightarrow> error + (flow_log \<times> battery)" where
  "decide_energy_flow m solar_gen_kw load_demand_kw battery grid_limit_kw =
     (let flow_log = new_flow_log
      in if strategy_name m = ''LOAD_PRIORITY'' then
           run_load_priority solar_gen_kw load_demand_kw battery grid_limit_kw flow_log
         else if strategy_name m = ''CHARGE_PRIORITY'' then
           run_charge_priority solar_gen_kw load_demand_kw battery grid_limit_kw flow_log
         else if strategy_name m = ''PRODUCE_PRIORITY'' then
           run_produce_priority solar_gen_kw load_demand_kw battery grid_limit_kw flow_log
         else
           run_load_priority solar_gen_kw load_demand_kw battery grid_limit_kw flow_log)"

section \<open>Battery: basic facts\<close>

lemma Battery_init_constructed: "Battery_init config_data = Inr b \<Longrightarrow> constructed b"
  by (auto simp: Battery_init_def constructed_def Let_def split: if_splits)



lemma charge_consts:
  assumes "charge b x = Inr (r, b')"
  shows "capacity_kwh b' = capacity_kwh b" "efficiency_rt b' = efficiency_rt b"
    "min_soc_limit_pct b' = min_soc_limit_pct b" "efficiency_ow b' = efficiency_ow b"
  using assms by (auto simp: charge_def Let_def split: if_splits)








section \<open>Battery: the state-of-charge bounds (C1)\<close>




section \<open>Battery: zero and negative requests (C3)\<close>

text \<open>
  C3 says that \<open>charge(x)\<close> and \<open>discharge(x)\<close> with \<open>x \<le> 0\<close> return 0 and leave the
  stored energy as it was. The methods have no test of the sign: on a half-full battery
  \<open>charge(-1)\<close> returns \<open>-1\<close> and lowers the stored energy, and \<open>discharge(-1)\<close>
  returns \<open>-1\<close> and raises it.
\<close>

theorem nonpositive_requests_counterexample:
  "charge \<lparr>capacity_kwh = 10, efficiency_rt = 1, min_soc_limit_pct = 1 / 10,
      current_energy_kwh = 5, efficiency_ow = 1\<rparr> (- 1) =
   Inr (- 1, \<lparr>capacity_kwh = 10, efficiency_rt = 1, min_soc_limit_pct = 1 / 10,
      current_energy_kwh = 4, efficiency_ow = 1\<rparr>) \<and>
   discharge \<lparr>capacity_kwh = 10, efficiency_rt = 1, min_soc_limit_pct = 1 / 10,
      current_energy_kwh = 5, efficiency_ow = 1\<rparr> (- 1) =
   Inr (- 1, \<lparr>capacity_kwh = 10, efficiency_rt = 1, min_soc_limit_pct = 1 / 10,
      current_energy_kwh = 6, efficiency_ow = 1\<rparr>)"
  by (simp add: charge_def discharge_def)

text \<open>
  C3, amended: a zero request is a no-op returning 0, for \<open>charge\<close> on a battery that is
  not above its capacity and for \<open>discharge\<close> on a battery whose one-way efficiency is not
  zero; and \<open>discharge(x)\<close>, for any \<open>x\<close>, zero and negative included, is a no-op
  returning 0 on a battery with nothing above its reserve floor.
\<close>

theorem zero_requests_noop:
  "(current_energy_kwh b \<le> capacity_kwh b \<longrightarrow> charge b 0 = Inr (0, b)) \<and>
   (efficiency_ow b \<noteq> 0 \<longrightarrow> discharge b 0 = Inr (0, b)) \<and>
   (current_energy_kwh b \<le> capacity_kwh b * min_soc_limit_pct b \<longrightarrow>
      discharge b x = Inr (0, b))"
  by (simp add: charge_def discharge_def Let_def)

theorem zero_requests_noop_witness:
  "charge \<lparr>capacity_kwh = 10, efficiency_rt = 1 / 4, min_soc_limit_pct = 1 / 2,
      current_energy_kwh = 5, efficiency_ow = 1 / 2\<rparr> 0 =
     Inr (0, \<lparr>capacity_kwh = 10, efficiency_rt = 1 / 4, min_soc_limit_pct = 1 / 2,
      current_energy_kwh = 5, efficiency_ow = 1 / 2\<rparr>) \<and>
   discharge \<lparr>capacity_kwh = 10, efficiency_rt = 1 / 4, min_soc_limit_pct = 1 / 2,
      current_energy_kwh = 5, efficiency_ow = 1 / 2\<rparr> 0 =
     Inr (0, \<lparr>capacity_kwh = 10, efficiency_rt = 1 / 4, min_soc_limit_pct = 1 / 2,
      current_energy_kwh = 5, efficiency_ow = 1 / 2\<rparr>) \<and>
   discharge \<lparr>capacity_kwh = 10, efficiency_rt = 1 / 4, min_soc_limit_pct = 1 / 2,
      current_energy_kwh = 5, efficiency_ow = 1 / 2\<rparr> (- 3) =
     Inr (0, \<lparr>capacity_kwh = 10, efficiency_rt = 1 / 4, min_soc_limit_pct = 1 / 2,
      current_energy_kwh = 5, efficiency_ow = 1 / 2\<rparr>)"
  using zero_requests_noop [where x = "- 3" and b = "\<lparr>capacity_kwh = 10,
      efficiency_rt = 1 / 4, min_soc_limit_pct = 1 / 2, current_energy_kwh = 5,
      efficiency_ow = 1 / 2\<rparr>"]
  by simp

section \<open>Battery: round-trip loss (C5)\<close>



section \<open>Battery: the initial state and the reserve floor (C9)\<close>



section \<open>Dispatch: helper facts\<close>


lemma charge_error:
  "charge b x = Inl e \<Longrightarrow> e = ZeroDivisionError \<and> efficiency_ow b = 0"
  by (auto simp: charge_def Let_def split: if_splits)

lemma discharge_error:
  "discharge b x = Inl e \<Longrightarrow> e = ZeroDivisionError \<and> efficiency_ow b = 0"
  by (auto simp: discharge_def Let_def split: if_splits)







lemma run_produce_priority_error:
  "run_produce_priority solar load b gl lg0 = Inl e \<Longrightarrow>
   e = ZeroDivisionError \<and> efficiency_ow b = 0"
proof -
  assume a: "run_produce_priority solar load b gl lg0 = Inl e"
  have d: "e = ZeroDivisionError \<and> efficiency_ow b = 0"
    if "charge b x = Inr (r, b1)" "discharge b1 y = Inl e" for x r b1 y
    using discharge_error [OF that(2)] charge_consts(4) [OF that(1)] by simp
  from a show ?thesis
    by (auto simp: run_produce_priority_def Let_def
        split: if_splits sum.splits prod.splits
        dest: charge_error discharge_error d)
qed








lemma run_produce_priority_curtailed:
  assumes "run_produce_priority solar load b gl new_flow_log = Inr (lg, b')"
  shows "curtailed lg = max 0 (solar - solar_to_grid lg - solar_to_battery lg - load)"
  using assms
  by (auto simp: run_produce_priority_def new_flow_log_def Let_def
      split: if_splits sum.splits prod.splits)

section \<open>Dispatch: the load is always met (C2)\<close>



section \<open>Dispatch: the solar input is allocated exactly (C8)\<close>



section \<open>Dispatch: curtailment under PRODUCE\_PRIORITY (C4)\<close>

text \<open>
  C4 says that under PRODUCE\_PRIORITY the \<open>curtailed\<close> field is always 0. The policy
  writes into it whatever solar is left after export, charging and load. With a full
  battery, an export limit of 1 and a load of 2, a solar input of 10 leaves 7 curtailed.
\<close>

theorem produce_priority_curtailed_counterexample:
  "decide_energy_flow \<lparr>strategy_name = ''PRODUCE_PRIORITY''\<rparr> 10 2
     \<lparr>capacity_kwh = 10, efficiency_rt = 1, min_soc_limit_pct = 1 / 10,
      current_energy_kwh = 10, efficiency_ow = 1\<rparr> 1 =
   Inr (\<lparr>solar_to_load = 2, solar_to_battery = 0, solar_to_grid = 1,
         grid_import = 0, battery_discharge = 0, curtailed = 7\<rparr>,
        \<lparr>capacity_kwh = 10, efficiency_rt = 1, min_soc_limit_pct = 1 / 10,
         current_energy_kwh = 10, efficiency_ow = 1\<rparr>)"
  by (simp add: decide_energy_flow_def run_produce_priority_def new_flow_log_def
      charge_def discharge_def Let_def)

text \<open>
  C4, amended: under PRODUCE\_PRIORITY the \<open>curtailed\<close> field is the solar left after
  export, battery charging and load,
  \<open>max(0, solar - solar_to_grid - solar_to_battery - load_demand)\<close>; it is 0 when
  export, charging and load together absorb the solar input.
\<close>

theorem produce_priority_curtailed:
  "case decide_energy_flow \<lparr>strategy_name = ''PRODUCE_PRIORITY''\<rparr> solar load b gl of
     Inr (lg, b') \<Rightarrow>
       curtailed lg = max 0 (solar - solar_to_grid lg - solar_to_battery lg - load)
   | Inl e \<Rightarrow> e = ZeroDivisionError \<and> efficiency_ow b = 0"
proof -
  have "decide_energy_flow \<lparr>strategy_name = ''PRODUCE_PRIORITY''\<rparr> solar load b gl =
        run_produce_priority solar load b gl new_flow_log"
    by (simp add: decide_energy_flow_def)
  then show ?thesis
    by (auto split: sum.splits
        dest: run_produce_priority_error run_produce_priority_curtailed)
qed

theorem produce_priority_curtailed_witness:
  "decide_energy_flow \<lparr>strategy_name = ''PRODUCE_PRIORITY''\<rparr> 3 5
     \<lparr>capacity_kwh = 10, efficiency_rt = 1 / 4, min_soc_limit_pct = 1 / 10,
      current_energy_kwh = 5, efficiency_ow = 1 / 2\<rparr> 1 =
   Inr (\<lparr>solar_to_load = 0, solar_to_battery = 2, solar_to_grid = 1,
         grid_import = 5 / 2, battery_discharge = 5 / 2, curtailed = 0\<rparr>,
        \<lparr>capacity_kwh = 10, efficiency_rt = 1 / 4, min_soc_limit_pct = 1 / 10,
         current_energy_kwh = 1, efficiency_ow = 1 / 2\<rparr>) \<and>
   (0 :: real) = max 0 (3 - 1 - 2 - 5)"
  using produce_priority_curtailed [where solar = 3 and load = 5 and gl = 1
      and b = "\<lparr>capacity_kwh = 10, efficiency_rt = 1 / 4, min_soc_limit_pct = 1 / 10,
      current_energy_kwh = 5, efficiency_ow = 1 / 2\<rparr>"]
  by (simp add: decide_energy_flow_def run_produce_priority_def new_flow_log_def
      charge_def discharge_def Let_def)

section \<open>Inverter: helper facts\<close>

lemma randint_range:
  "randint a b r = Inr d \<Longrightarrow> a \<le> d \<and> d \<le> b"
proof -
  assume h: "randint a b r = Inr d"
  then have ab: "a \<le> b" and d: "d = a + int r mod (b - a + 1)"
    by (auto simp: randint_def split: if_splits)
  from ab have p: "0 < b - a + 1" by simp
  have "0 \<le> int r mod (b - a + 1)" "int r mod (b - a + 1) < b - a + 1"
    using pos_mod_sign [OF p] pos_mod_bound [OF p] by blast+
  with d show ?thesis by linarith
qed

lemma randint_total: "a \<le> b \<Longrightarrow> \<exists>d. randint a b r = Inr d"
  by (simp add: randint_def)

lemma roll_failure_broken:
  assumes "roll_failure iv u r = Inr (ok, iv')" "is_broken iv'" "\<not> is_broken iv"
  shows "\<not> ok \<and> min_repair_time iv \<le> hours_until_repair iv' \<and>
         hours_until_repair iv' \<le> max_repair_time iv \<and>
         max_output_kw iv' = max_output_kw iv \<and>
         failure_probability iv' = failure_probability iv"
  using assms
  by (auto simp: roll_failure_def split: if_splits sum.splits dest: randint_range)

lemma check_status_broken:
  assumes "\<not> (is_broken iv \<and> 1 < hours_until_repair iv)"
    and "check_status iv u r = Inr (ok, iv')" and "is_broken iv'"
  shows "\<not> ok \<and> min_repair_time iv \<le> hours_until_repair iv' \<and>
         hours_until_repair iv' \<le> max_repair_time iv \<and>
         max_output_kw iv' = max_output_kw iv \<and>
         failure_probability iv' = failure_probability iv"
proof (cases "is_broken iv")
  case False
  with assms roll_failure_broken [of iv u r ok iv'] show ?thesis
    by (simp add: check_status_def)
next
  case True
  let ?iv1 = "iv\<lparr>hours_until_repair := hours_until_repair iv - 1, is_broken := False\<rparr>"
  from True assms have "roll_failure ?iv1 u r = Inr (ok, iv')"
    by (simp add: check_status_def Let_def)
  from roll_failure_broken [OF this assms(3)] show ?thesis by simp
qed

lemma clip_power_still_broken:
  assumes "is_broken iv" "1 < hours_until_repair iv"
  shows "clip_power iv dc u r = Inr (0, iv\<lparr>hours_until_repair := hours_until_repair iv - 1\<rparr>)"
  using assms by (simp add: clip_power_def check_status_def Let_def)

lemma clip_steps_still_broken:
  "is_broken iv \<Longrightarrow> int (length steps) < hours_until_repair iv \<Longrightarrow>
   clip_steps iv steps =
     Inr (replicate (length steps) 0,
          iv\<lparr>hours_until_repair := hours_until_repair iv - int (length steps)\<rparr>)"
proof (induction steps arbitrary: iv)
  case Nil
  then show ?case by simp
next
  case (Cons s steps)
  obtain dc u r where s: "s = (dc, u, r)" by (cases s)
  let ?iv1 = "iv\<lparr>hours_until_repair := hours_until_repair iv - 1\<rparr>"
  from Cons.prems have c: "clip_power iv dc u r = Inr (0, ?iv1)"
    by (intro clip_power_still_broken) simp_all
  from Cons.prems have "clip_steps ?iv1 steps =
     Inr (replicate (length steps) 0,
          ?iv1\<lparr>hours_until_repair := hours_until_repair ?iv1 - int (length steps)\<rparr>)"
    by (intro Cons.IH) simp_all
  with c s show ?case by simp
qed

lemma clip_power_repaired:
  assumes "is_broken iv" "hours_until_repair iv \<le> 1" "\<not> u < failure_probability iv"
  shows "clip_power iv dc u r =
    Inr (min dc (max_output_kw iv),
         iv\<lparr>hours_until_repair := hours_until_repair iv - 1, is_broken := False\<rparr>)"
  using assms by (simp add: clip_power_def check_status_def roll_failure_def Let_def)

lemma clip_power_Inr:
  assumes "clip_power iv dc u r = Inr (ac, iv')"
  obtains ok where "check_status iv u r = Inr (ok, iv')"
    and "ac = (if ok then min dc (max_output_kw iv') else 0)"
proof (cases "check_status iv u r")
  case (Inl e)
  with assms show ?thesis by (simp add: clip_power_def)
next
  case (Inr p)
  obtain ok iv1 where p: "p = (ok, iv1)" by (cases p)
  with Inr assms have "iv1 = iv'" "ac = (if ok then min dc (max_output_kw iv') else 0)"
    by (cases ok; simp add: clip_power_def)+
  with Inr p that show ?thesis by simp
qed

section \<open>Inverter: broken until the repair duration has elapsed (C6)\<close>

text \<open>
  C6: take a \<open>clip_power\<close> call in which the inverter becomes broken (it was working,
  or its repair completed in this very call, and the roll failed). That call returns 0
  and the repair duration it drew is an integer between \<open>min_repair_time\<close> and
  \<open>max_repair_time\<close>. Every later step, as long as fewer steps than the drawn duration
  have passed, returns exactly 0 whatever the DC input and the draws. At the step where
  the duration has elapsed the inverter is repaired, and when the roll of that step does
  not fail it returns \<open>min(dc_input, max_output_kw)\<close>.
\<close>

theorem broken_until_repaired:
  assumes "\<not> (is_broken iv \<and> 1 < hours_until_repair iv)"
    and "clip_power iv dc0 u0 r0 = Inr (ac0, iv0)"
    and "is_broken iv0"
  shows "ac0 = 0 \<and>
    min_repair_time iv \<le> hours_until_repair iv0 \<and>
    hours_until_repair iv0 \<le> max_repair_time iv \<and>
    (\<forall>steps. int (length steps) < hours_until_repair iv0 \<longrightarrow>
       (\<exists>iv1. clip_steps iv0 steps = Inr (replicate (length steps) 0, iv1) \<and>
              is_broken iv1)) \<and>
    (\<forall>steps dc u r.
       int (length steps) = max 0 (hours_until_repair iv0 - 1) \<longrightarrow>
       \<not> u < failure_probability iv \<longrightarrow>
       (\<exists>iv1 iv2. clip_steps iv0 steps = Inr (replicate (length steps) 0, iv1) \<and>
                  clip_power iv1 dc u r = Inr (min dc (max_output_kw iv), iv2) \<and>
                  \<not> is_broken iv2))"
proof -
  from assms(2) obtain ok where cs: "check_status iv u0 r0 = Inr (ok, iv0)"
    and ac: "ac0 = (if ok then min dc0 (max_output_kw iv0) else 0)"
    by (rule clip_power_Inr)
  from check_status_broken [OF assms(1) cs assms(3)]
  have ok: "\<not> ok" and lo: "min_repair_time iv \<le> hours_until_repair iv0"
    and hi: "hours_until_repair iv0 \<le> max_repair_time iv"
    and mx: "max_output_kw iv0 = max_output_kw iv"
    and fp: "failure_probability iv0 = failure_probability iv"
    by simp_all
  have still: "\<exists>iv1. clip_steps iv0 steps = Inr (replicate (length steps) 0, iv1) \<and> is_broken iv1"
    if "int (length steps) < hours_until_repair iv0" for steps
    using clip_steps_still_broken [OF assms(3) that] assms(3) by simp
  have resume: "\<exists>iv1 iv2. clip_steps iv0 steps = Inr (replicate (length steps) 0, iv1) \<and>
                  clip_power iv1 dc u r = Inr (min dc (max_output_kw iv), iv2) \<and>
                  \<not> is_broken iv2"
    if len: "int (length steps) = max 0 (hours_until_repair iv0 - 1)"
      and u: "\<not> u < failure_probability iv" for steps dc u r
  proof (cases "1 \<le> hours_until_repair iv0")
    case True
    let ?iv1 = "iv0\<lparr>hours_until_repair := hours_until_repair iv0 - int (length steps)\<rparr>"
    from True len have "int (length steps) < hours_until_repair iv0" by simp
    from clip_steps_still_broken [OF assms(3) this]
    have s: "clip_steps iv0 steps = Inr (replicate (length steps) 0, ?iv1)" .
    from True len have h1: "hours_until_repair ?iv1 \<le> 1" by simp
    have "clip_power ?iv1 dc u r =
      Inr (min dc (max_output_kw ?iv1),
           ?iv1\<lparr>hours_until_repair := hours_until_repair ?iv1 - 1, is_broken := False\<rparr>)"
      using assms(3) h1 u fp by (intro clip_power_repaired) simp_all
    with s mx show ?thesis by simp
  next
    case False
    with len have e: "steps = []" by simp
    have "clip_power iv0 dc u r =
      Inr (min dc (max_output_kw iv0),
           iv0\<lparr>hours_until_repair := hours_until_repair iv0 - 1, is_broken := False\<rparr>)"
      using assms(3) False u fp by (intro clip_power_repaired) simp_all
    with e mx show ?thesis by simp
  qed
  from ok ac have z: "ac0 = 0" by simp
  show ?thesis
  proof (intro conjI allI impI)
    show "ac0 = 0" by (rule z)
    show "min_repair_time iv \<le> hours_until_repair iv0" by (rule lo)
    show "hours_until_repair iv0 \<le> max_repair_time iv" by (rule hi)
  next
    fix steps :: "(real \<times> real \<times> nat) list"
    assume "int (length steps) < hours_until_repair iv0"
    then show "\<exists>iv1. clip_steps iv0 steps = Inr (replicate (length steps) 0, iv1) \<and>
      is_broken iv1"
      by (rule still)
  next
    fix steps :: "(real \<times> real \<times> nat) list" and dc u :: real and r :: nat
    assume "int (length steps) = max 0 (hours_until_repair iv0 - 1)"
      and "\<not> u < failure_probability iv"
    then show "\<exists>iv1 iv2. clip_steps iv0 steps = Inr (replicate (length steps) 0, iv1) \<and>
                  clip_power iv1 dc u r = Inr (min dc (max_output_kw iv), iv2) \<and>
                  \<not> is_broken iv2"
      by (rule resume)
  qed
qed

theorem broken_until_repaired_witness:
  "\<not> (is_broken \<lparr>max_output_kw = 4, failure_probability = 1 / 2, min_repair_time = 2,
         max_repair_time = 3, is_broken = False, hours_until_repair = 0\<rparr> \<and>
       1 < hours_until_repair \<lparr>max_output_kw = 4, failure_probability = 1 / 2,
         min_repair_time = 2, max_repair_time = 3, is_broken = False,
         hours_until_repair = 0\<rparr>) \<and>
   clip_power \<lparr>max_output_kw = 4, failure_probability = 1 / 2, min_repair_time = 2,
         max_repair_time = 3, is_broken = False, hours_until_repair = 0\<rparr> 5 0 0 =
     Inr (0, \<lparr>max_output_kw = 4, failure_probability = 1 / 2, min_repair_time = 2,
         max_repair_time = 3, is_broken = True, hours_until_repair = 2\<rparr>) \<and>
   clip_steps \<lparr>max_output_kw = 4, failure_probability = 1 / 2, min_repair_time = 2,
         max_repair_time = 3, is_broken = True, hours_until_repair = 2\<rparr>
       [(5, 0, 0), (5, 1 / 2, 0)] =
     Inr ([0, 4], \<lparr>max_output_kw = 4, failure_probability = 1 / 2, min_repair_time = 2,
         max_repair_time = 3, is_broken = False, hours_until_repair = 0\<rparr>)"
proof -
  let ?iv = "\<lparr>max_output_kw = 4, failure_probability = 1 / 2, min_repair_time = 2,
         max_repair_time = 3, is_broken = False, hours_until_repair = 0\<rparr>"
  let ?broken = "\<lparr>max_output_kw = 4, failure_probability = 1 / 2, min_repair_time = 2,
         max_repair_time = 3, is_broken = True, hours_until_repair = 2\<rparr>"
  have h: "\<not> (is_broken ?iv \<and> 1 < hours_until_repair ?iv)"
    by simp
  have a: "clip_power ?iv 5 0 0 = Inr (0, ?broken)"
    by (simp add: clip_power_def check_status_def roll_failure_def randint_def)
  have b: "is_broken ?broken"
    by simp
  have s: "clip_steps ?broken [(5, 0, 0), (5, 1 / 2, 0)] =
     Inr ([0, 4], \<lparr>max_output_kw = 4, failure_probability = 1 / 2, min_repair_time = 2,
         max_repair_time = 3, is_broken = False, hours_until_repair = 0\<rparr>)"
    by (simp add: clip_power_def check_status_def roll_failure_def Let_def)
  from broken_until_repaired [OF h a b] h a s show ?thesis
    by simp
qed

section \<open>Inverter: repair and new failure in one call (C10)\<close>

text \<open>
  C10: one \<open>check_status\<close> call on a broken inverter whose counter is 1 completes the
  repair and then makes the roll for a new failure in the same call. With a positive
  failure probability there is an outcome of \<open>random.random()\<close> for which the call
  returns \<open>False\<close> and leaves the inverter broken again, with a freshly drawn repair
  duration between \<open>min_repair_time\<close> and \<open>max_repair_time\<close>.
\<close>

theorem repair_then_new_failure:
  assumes "is_broken iv" and "hours_until_repair iv = 1"
    and "0 < failure_probability iv"
    and "min_repair_time iv \<le> max_repair_time iv"
  shows "\<exists>u d. 0 \<le> u \<and> u < 1 \<and>
           check_status iv u r = Inr (False, iv\<lparr>hours_until_repair := d\<rparr>) \<and>
           is_broken (iv\<lparr>hours_until_repair := d\<rparr>) \<and>
           randint (min_repair_time iv) (max_repair_time iv) r = Inr d \<and>
           min_repair_time iv \<le> d \<and> d \<le> max_repair_time iv"
proof -
  from randint_total [OF assms(4)] obtain d where
    d: "randint (min_repair_time iv) (max_repair_time iv) r = Inr d" by blast
  have "check_status iv 0 r = Inr (False, iv\<lparr>hours_until_repair := d\<rparr>)"
    using assms(1,2,3) d by (simp add: check_status_def roll_failure_def Let_def)
  with d randint_range [OF d] assms(1) show ?thesis
    by (intro exI [of _ 0] exI [of _ d]) simp
qed

theorem repair_then_new_failure_witness:
  "check_status \<lparr>max_output_kw = 4, failure_probability = 1 / 2, min_repair_time = 2,
       max_repair_time = 3, is_broken = True, hours_until_repair = 1\<rparr> 0 1 =
     Inr (False, \<lparr>max_output_kw = 4, failure_probability = 1 / 2, min_repair_time = 2,
       max_repair_time = 3, is_broken = True, hours_until_repair = 3\<rparr>)"
  using repair_then_new_failure [where r = 1 and iv = "\<lparr>max_output_kw = 4,
       failure_probability = 1 / 2, min_repair_time = 2, max_repair_time = 3,
       is_broken = True, hours_until_repair = 1\<rparr>"]
  by (simp add: check_status_def roll_failure_def randint_def)

section \<open>Solar panel: the generation profile (C7)\<close>










end
